theory Spec2Isabelle
  imports Main
begin

section \<open>Time values\<close>

text \<open>
  A JavaScript \<open>Date\<close> object holds a time value: a whole number of milliseconds since the
  epoch, or \<open>NaN\<close> (an Invalid Date). The model keeps both: \<open>Some t\<close> is the time value
  \<open>t\<close>, \<open>None\<close> is the Invalid Date. Local time is taken without zone offset or daylight
  saving shifts, so every local day has exactly \<open>msPerDay\<close> milliseconds. The clamp of time
  values beyond 8.64e15 ms to \<open>NaN\<close> is not modelled.
\<close>

type_synonym Date = "int option"

section \<open>JavaScript built-ins used by the code\<close>

subsection \<open>Numbers and comparison\<close>

text \<open>
  A JavaScript Number that the code computes from a string or a Date is modelled as
  \<open>int option\<close>: \<open>None\<close> is \<open>NaN\<close>. Integers are unbounded here; the code's Numbers are
  doubles, exact up to \<open>2 ^ 53\<close>. Every comparison with \<open>NaN\<close> is false, every sum or
  product with \<open>NaN\<close> is \<open>NaN\<close>.
\<close>

definition js_lt :: "int option \<Rightarrow> int option \<Rightarrow> bool" where
  "js_lt a b = (case (a, b) of (Some x, Some y) \<Rightarrow> x < y | _ \<Rightarrow> False)"

definition js_le :: "int option \<Rightarrow> int option \<Rightarrow> bool" where
  "js_le a b = (case (a, b) of (Some x, Some y) \<Rightarrow> x \<le> y | _ \<Rightarrow> False)"

definition js_gt :: "int option \<Rightarrow> int option \<Rightarrow> bool" where
  "js_gt a b = js_lt b a"

definition js_ge :: "int option \<Rightarrow> int option \<Rightarrow> bool" where
  "js_ge a b = js_le b a"

definition js_plus :: "int option \<Rightarrow> int option \<Rightarrow> int option" where
  "js_plus a b = (case (a, b) of (Some x, Some y) \<Rightarrow> Some (x + y) | _ \<Rightarrow> None)"

definition js_minus :: "int option \<Rightarrow> int option \<Rightarrow> int option" where
  "js_minus a b = (case (a, b) of (Some x, Some y) \<Rightarrow> Some (x - y) | _ \<Rightarrow> None)"

definition js_times :: "int option \<Rightarrow> int option \<Rightarrow> int option" where
  "js_times a b = (case (a, b) of (Some x, Some y) \<Rightarrow> Some (x * y) | _ \<Rightarrow> None)"

subsection \<open>Strings\<close>

text \<open>
  Strings are lists of characters; the model covers ASCII text, so white space is the six
  ASCII white space and line terminator characters.
\<close>

definition is_ws :: "char \<Rightarrow> bool" where
  "is_ws c = (let n = (of_char c :: nat) in n = 32 \<or> (9 \<le> n \<and> n \<le> 13))"

definition is_dec :: "char \<Rightarrow> bool" where
  "is_dec c = (let n = (of_char c :: nat) in 48 \<le> n \<and> n \<le> 57)"

definition dec_val :: "char \<Rightarrow> int" where
  "dec_val c = int (of_char c) - 48"

definition is_hex :: "char \<Rightarrow> bool" where
  "is_hex c = (let n = (of_char c :: nat) in
     (48 \<le> n \<and> n \<le> 57) \<or> (97 \<le> n \<and> n \<le> 102) \<or> (65 \<le> n \<and> n \<le> 70))"

definition hex_val :: "char \<Rightarrow> int" where
  "hex_val c = (let n = (of_char c :: nat) in
     if n \<le> 57 then int n - 48 else if 97 \<le> n then int n - 87 else int n - 55)"

definition dec_value :: "string \<Rightarrow> int" where
  "dec_value ds = foldl (\<lambda>a c. 10 * a + dec_val c) 0 ds"

definition hex_value :: "string \<Rightarrow> int" where
  "hex_value ds = foldl (\<lambda>a c. 16 * a + hex_val c) 0 ds"

text \<open>\<open>String.prototype.trim\<close>.\<close>

definition trim :: "string \<Rightarrow> string" where
  "trim s = rev (dropWhile is_ws (rev (dropWhile is_ws s)))"

text \<open>
  \<open>s.split(sep)\<close> for a one-character separator: the result is never empty, the empty
  string gives the list of one empty string.
\<close>

fun split_on :: "char \<Rightarrow> string \<Rightarrow> string list" where
  "split_on sep [] = [[]]"
| "split_on sep (c # cs) =
     (if c = sep then [] # split_on sep cs
      else (case split_on sep cs of
              [] \<Rightarrow> [[c]]
            | p # ps \<Rightarrow> (c # p) # ps))"

text \<open>
  \<open>s.replace(":", "")\<close> with a string pattern removes the first occurrence only: it is
  \<^const>\<open>remove1\<close> on the character list.
\<close>

definition replace_colon :: "string \<Rightarrow> string" where
  "replace_colon s = remove1 (CHR '':'') s"

text \<open>
  \<open>parseInt(s)\<close> with no radix: skip leading white space, take an optional sign, switch to
  radix 16 after a \<open>0x\<close> or \<open>0X\<close> prefix, read the longest prefix of digits; \<open>NaN\<close> when
  there is no digit.
\<close>

definition parseInt :: "string \<Rightarrow> int option" where
  "parseInt str =
     (let S = dropWhile is_ws str;
          sign = (if take 1 S = ''-'' then - 1 else 1 :: int);
          S1 = (if take 1 S = ''-'' \<or> take 1 S = ''+'' then drop 1 S else S)
      in if take 2 S1 = ''0x'' \<or> take 2 S1 = ''0X''
         then (let Z = takeWhile is_hex (drop 2 S1)
               in if Z = [] then None else Some (sign * hex_value Z))
         else (let Z = takeWhile is_dec S1
               in if Z = [] then None else Some (sign * dec_value Z)))"

text \<open>
  \<open>Number(s)\<close> on a string, for the integer numerals: white space is trimmed, the empty
  string is \<open>0\<close>, an optionally signed run of decimal digits is its value. Numerals with a
  fraction, an exponent or a radix prefix, and \<open>Infinity\<close>, are outside this model and
  come out as \<open>None\<close> like the strings that are no numerals at all.
\<close>

definition Number_str :: "string \<Rightarrow> int option" where
  "Number_str str =
     (let S = trim str;
          sign = (if take 1 S = ''-'' then - 1 else 1 :: int);
          ds = (if take 1 S = ''-'' \<or> take 1 S = ''+'' then drop 1 S else S)
      in if S = [] then Some 0
         else if ds \<noteq> [] \<and> list_all is_dec ds then Some (sign * dec_value ds)
         else None)"

subsection \<open>Dates\<close>

text \<open>
  The day and calendar arithmetic of ECMAScript's Date objects on valid time values, in a
  local time with no offset. \<open>YearFromTime\<close> is the year \<open>y\<close> with
  \<open>DayFromYear y \<le> Day t < DayFromYear (y + 1)\<close>, found from an estimate that is off by
  at most one (\<open>YearFromTime_bounds\<close> below). Months count from 0.
\<close>

definition msPerDay :: int where
  "msPerDay = 86400000"

definition Day :: "int \<Rightarrow> int" where
  "Day t = t div msPerDay"

definition TimeWithinDay :: "int \<Rightarrow> int" where
  "TimeWithinDay t = t mod msPerDay"

definition DayFromYear :: "int \<Rightarrow> int" where
  "DayFromYear y =
     365 * (y - 1970) + (y - 1969) div 4 - (y - 1901) div 100 + (y - 1601) div 400"

definition leap_days :: "int \<Rightarrow> int" where
  "leap_days y = DayFromYear (y + 1) - DayFromYear y - 365"

definition YearFromTime :: "int \<Rightarrow> int" where
  "YearFromTime t =
     (let d = Day t; y = 1970 + (d * 400) div 146097
      in if DayFromYear (y + 1) \<le> d then y + 1
         else if d < DayFromYear y then y - 1
         else y)"

definition month_starts :: "int \<Rightarrow> int list" where
  "month_starts l = [0, 31, 59 + l, 90 + l, 120 + l, 151 + l, 181 + l, 212 + l,
                     243 + l, 273 + l, 304 + l, 334 + l]"

definition DayWithinYear :: "int \<Rightarrow> int" where
  "DayWithinYear t = Day t - DayFromYear (YearFromTime t)"

definition MonthFromTime :: "int \<Rightarrow> int" where
  "MonthFromTime t =
     int (length (filter (\<lambda>s. s \<le> DayWithinYear t)
                         (month_starts (leap_days (YearFromTime t))))) - 1"

definition MakeDay :: "int \<Rightarrow> int \<Rightarrow> int \<Rightarrow> int" where
  "MakeDay year month dt =
     (let ym = year + month div 12; mn = month mod 12
      in DayFromYear ym + month_starts (leap_days ym) ! nat mn + dt - 1)"

definition MakeDate :: "int \<Rightarrow> int \<Rightarrow> int" where
  "MakeDate day time = day * msPerDay + time"

text \<open>The day of the month: one more than the days since the first of the month.\<close>

definition DateFromTime :: "int \<Rightarrow> int" where
  "DateFromTime t = Day t - MakeDay (YearFromTime t) (MonthFromTime t) 1 + 1"

text \<open>The methods of \<open>Date\<close> the code calls; a setter stands for the mutated object.\<close>

definition getFullYear :: "Date \<Rightarrow> int option" where
  "getFullYear d = map_option YearFromTime d"

definition getMonth :: "Date \<Rightarrow> int option" where
  "getMonth d = map_option MonthFromTime d"

definition getDate :: "Date \<Rightarrow> int option" where
  "getDate d = map_option DateFromTime d"

definition setHours0 :: "Date \<Rightarrow> Date" where
  "setHours0 d = map_option (\<lambda>t. MakeDate (Day t) 0) d"

definition setDate :: "Date \<Rightarrow> int option \<Rightarrow> Date" where
  "setDate d n =
     (case (d, n) of
        (Some t, Some dt) \<Rightarrow>
          Some (MakeDate (MakeDay (YearFromTime t) (MonthFromTime t) dt) (TimeWithinDay t))
      | _ \<Rightarrow> None)"

definition setFullYear :: "Date \<Rightarrow> int option \<Rightarrow> Date" where
  "setFullYear d n =
     (case (d, n) of
        (Some t, Some y) \<Rightarrow>
          Some (MakeDate (MakeDay y (MonthFromTime t) (DateFromTime t)) (TimeWithinDay t))
      | _ \<Rightarrow> None)"

text \<open>\<open>new Date(year, month, date)\<close>: midnight of that day; years 0 to 99 mean 1900 to 1999.\<close>

definition new_Date :: "int option \<Rightarrow> int option \<Rightarrow> int option \<Rightarrow> Date" where
  "new_Date year month dt =
     (case (year, month, dt) of
        (Some y, Some m, Some d) \<Rightarrow>
          Some (MakeDate (MakeDay (if 0 \<le> y \<and> y \<le> 99 then 1900 + y else y) m d) 0)
      | _ \<Rightarrow> None)"

section \<open>Data model\<close>

datatype EventType = work | personal | meeting | other

datatype EventMode = view | edit | create

text \<open>
  \<open>CalendarEvent\<close> of \<open>types/Event\<close>; the optional fields are options. \<open>EventData\<close> is
  \<open>Omit<CalendarEvent, "id">\<close>, and \<open>CalendarEvent\<close> extends it by the identity.
\<close>

record EventData =
  title :: string
  description :: "string option"
  startDate :: Date
  endDate :: Date
  startTime :: string
  endTime :: string
  type_ev :: EventType
  isMultiDay :: "bool option"

record CalendarEvent = EventData +
  id_ev :: string

record HistoryState =
  past :: "CalendarEvent list list"
  present :: "CalendarEvent list"
  future :: "CalendarEvent list list"

section \<open>The history log\<close>

text \<open>The updater functions that \<open>pushToHistory\<close>, \<open>undo\<close> and \<open>redo\<close> hand to \<open>setHistory\<close>.\<close>

definition pushToHistory :: "CalendarEvent list \<Rightarrow> HistoryState \<Rightarrow> HistoryState" where
  "pushToHistory newEvents prev =
     \<lparr>past = past prev @ [present prev], present = newEvents, future = []\<rparr>"

definition undo :: "HistoryState \<Rightarrow> HistoryState" where
  "undo prev =
     (if length (past prev) = 0 then prev
      else \<lparr>past = butlast (past prev),
            present = last (past prev),
            future = present prev # future prev\<rparr>)"

definition redo :: "HistoryState \<Rightarrow> HistoryState" where
  "redo prev =
     (if length (future prev) = 0 then prev
      else \<lparr>past = past prev @ [present prev],
            present = hd (future prev),
            future = tl (future prev)\<rparr>)"

text \<open>A sequence of commits, oldest first.\<close>

definition commits :: "HistoryState \<Rightarrow> CalendarEvent list list \<Rightarrow> HistoryState" where
  "commits h cs = foldl (\<lambda>s c. pushToHistory c s) h cs"

section \<open>Time-of-day utilities\<close>

text \<open>\<open>timeToMinutes\<close>: \<open>time.split(':').map(Number)\<close>, then \<open>hours * 60 + minutes\<close>.\<close>

definition timeToMinutes :: "string \<Rightarrow> int option" where
  "timeToMinutes time =
     (case map Number_str (split_on (CHR '':'') time) of
        hours # minutes # _ \<Rightarrow> js_plus (js_times hours (Some 60)) minutes
      | _ \<Rightarrow> None)"

definition doTimesOverlap :: "string \<Rightarrow> string \<Rightarrow> string \<Rightarrow> string \<Rightarrow> bool" where
  "doTimesOverlap start1 end1 start2 end2 =
     (let start1Mins = timeToMinutes start1;
          end1Mins = timeToMinutes end1;
          start2Mins = timeToMinutes start2;
          end2Mins = timeToMinutes end2
      in js_lt start1Mins end2Mins \<and> js_gt end1Mins start2Mins)"

definition validateTimeRange :: "string \<Rightarrow> string \<Rightarrow> string option" where
  "validateTimeRange startTime' endTime' =
     (let startMinutes = timeToMinutes startTime';
          endMinutes = timeToMinutes endTime'
      in if js_le endMinutes startMinutes then Some ''End time must be after start time''
         else None)"

section \<open>The drop validator\<close>

text \<open>
  \<open>isDateInEventRange\<close> sets its \<open>date\<close> argument to midnight in place, so it returns the
  mutated date beside its verdict. The event's dates are copied before they are changed.
\<close>

definition isDateInEventRange :: "Date \<Rightarrow> CalendarEvent \<Rightarrow> bool \<times> Date" where
  "isDateInEventRange date event =
     (let eventStart = startDate event;
          eventEnd = endDate event;
          date' = setHours0 date;
          eventStart' = setHours0 eventStart;
          eventEnd' = setHours0 eventEnd
      in (js_ge date' eventStart' \<and> js_le date' eventEnd', date'))"

text \<open>
  \<open>history.present.filter((e) => isDateInEventRange(currentDate, e) && e.id !== event.id)\<close>:
  the callback runs on every element in order and each call mutates \<open>currentDate\<close>; the
  result is the filtered list and the date as the calls leave it.
\<close>

fun dayEvents_of :: "Date \<Rightarrow> string \<Rightarrow> CalendarEvent list \<Rightarrow> CalendarEvent list \<times> Date" where
  "dayEvents_of currentDate' eid [] = ([], currentDate')"
| "dayEvents_of currentDate' eid (e # es) =
     (let r = isDateInEventRange currentDate' e;
          rest = dayEvents_of (snd r) eid es
      in (if fst r \<and> id_ev e \<noteq> eid then e # fst rest else fst rest, snd rest))"

text \<open>The callback of \<open>dayEvents.some\<close>: both time ranges as \<open>HHMM\<close> integers.\<close>

definition conflictsWith :: "CalendarEvent \<Rightarrow> CalendarEvent \<Rightarrow> bool" where
  "conflictsWith event existingEvent =
     (let eventStart = parseInt (replace_colon (startTime event));
          eventEnd = parseInt (replace_colon (endTime event));
          existingStart = parseInt (replace_colon (startTime existingEvent));
          existingEnd = parseInt (replace_colon (endTime existingEvent))
      in js_lt eventStart existingEnd \<and> js_gt eventEnd existingStart)"

datatype reason = PastDate | HorizonExceeded | TimeConflict

text \<open>The text that \<open>setDragError\<close> receives with each rejection.\<close>

fun message :: "reason \<Rightarrow> string" where
  "message PastDate = ''Cannot schedule events in the past''"
| "message HorizonExceeded = ''Cannot schedule events more than a year in advance''"
| "message TimeConflict = ''Time conflict with existing event''"

lemma setDate_next_day:
  "setDate (Some t) (js_plus (getDate (Some t)) (Some k)) = Some (t + k * msPerDay)"
proof -
  have "MakeDay (YearFromTime t) (MonthFromTime t) (DateFromTime t + k) = Day t + k"
    by (simp add: DateFromTime_def MakeDay_def Let_def)
  moreover have "Day t * msPerDay + TimeWithinDay t = t"
    by (simp add: Day_def TimeWithinDay_def)
  ultimately show ?thesis
    by (simp add: setDate_def js_plus_def getDate_def MakeDate_def algebra_simps)
qed

lemma Day_add_days: "Day (t + k * msPerDay) = Day t + k"
  by (simp add: Day_def msPerDay_def)

lemma Day_mono: "s \<le> t \<Longrightarrow> Day s \<le> Day t"
  by (simp add: Day_def msPerDay_def zdiv_mono1)

lemma snd_dayEvents_of:
  "snd (dayEvents_of d eid es) = (if es = [] then d else setHours0 d)"
  by (induction es arbitrary: d)
    (simp_all add: Let_def isDateInEventRange_def setHours0_def option.map_comp comp_def
      Day_def MakeDate_def msPerDay_def)

text \<open>
  The \<open>while (currentDate <= newEndDate)\<close> loop of \<open>isValidDropDate\<close>; \<open>None\<close> is the exit
  with no conflict found.
\<close>

function scanDays :: "CalendarEvent list \<Rightarrow> CalendarEvent \<Rightarrow> Date \<Rightarrow> Date \<Rightarrow> reason option" where
  "scanDays events event currentDate' newEndDate =
     (if js_le currentDate' newEndDate
      then (let r = dayEvents_of currentDate' (id_ev event) events
            in if list_ex (conflictsWith event) (fst r) then Some TimeConflict
               else scanDays events event
                      (setDate (snd r) (js_plus (getDate (snd r)) (Some 1))) newEndDate)
      else None)"
  by pat_completeness auto
termination
proof (relation "measure (\<lambda>(events, event, c, e).
         case (c, e) of (Some s, Some t) \<Rightarrow> nat (Day t - Day s + 1) | _ \<Rightarrow> 0)")
  show "wf (measure (\<lambda>(events, event, c, e).
         case (c, e) of (Some s, Some t) \<Rightarrow> nat (Day t - Day s + 1) | _ \<Rightarrow> 0))"
    by simp
next
  fix events :: "CalendarEvent list" and event :: CalendarEvent
    and currentDate' newEndDate :: Date and r
  assume le: "js_le currentDate' newEndDate"
    and r: "r = dayEvents_of currentDate' (id_ev event) events"
  from le obtain s t where st: "currentDate' = Some s" "newEndDate = Some t" "s \<le> t"
    by (auto simp: js_le_def split: option.splits)
  have "snd r = Some s \<or> snd r = Some (MakeDate (Day s) 0)"
    by (simp add: r snd_dayEvents_of st setHours0_def)
  moreover have "Day (MakeDate (Day s) 0) = Day s"
    by (simp add: MakeDate_def Day_def msPerDay_def)
  ultimately obtain s' where s': "snd r = Some s'" "Day s' = Day s"
    by auto
  have "setDate (snd r) (js_plus (getDate (snd r)) (Some 1)) = Some (s' + 1 * msPerDay)"
    unfolding s' by (rule setDate_next_day)
  moreover have "Day (s' + 1 * msPerDay) = Day s + 1"
    using Day_add_days [of s' 1] s' by simp
  moreover have "Day s \<le> Day t"
    using st by (simp add: Day_mono)
  ultimately show "((events, event, setDate (snd r) (js_plus (getDate (snd r)) (Some 1)),
           newEndDate), events, event, currentDate', newEndDate)
        \<in> measure (\<lambda>(events, event, c, e).
             case (c, e) of (Some s, Some t) \<Rightarrow> nat (Day t - Day s + 1) | _ \<Rightarrow> 0)"
    by (simp add: st)
qed

declare scanDays.simps [simp del]

text \<open>
  \<open>isValidDropDate\<close>, given the clock reading \<open>now\<close> of its \<open>new Date()\<close> calls and the
  collection \<open>history.present\<close>. \<open>Some r\<close>: it calls \<open>setDragError (message r)\<close> and returns
  \<open>false\<close>; \<open>None\<close>: it calls \<open>setDragError(null)\<close> and returns \<open>true\<close>.
\<close>

definition oneYearFromNow :: "int \<Rightarrow> Date" where
  "oneYearFromNow now = setFullYear (Some now) (js_plus (getFullYear (Some now)) (Some 1))"

definition isValidDropDate ::
  "int \<Rightarrow> CalendarEvent list \<Rightarrow> CalendarEvent \<Rightarrow> Date \<Rightarrow> Date \<Rightarrow> reason option" where
  "isValidDropDate now events event newStartDate newEndDate =
     (let today = setHours0 (Some now)
      in if js_lt newStartDate today then Some PastDate
         else if js_gt newStartDate (oneYearFromNow now) then Some HorizonExceeded
         else scanDays events event newStartDate newEndDate)"

section \<open>The calendar component\<close>

text \<open>
  The state of \<open>CalendarView\<close> that its handlers read and write. \<open>alerts\<close> is not a state
  variable of the component: it logs the messages passed to \<open>alert\<close>, oldest first.
  Timers are run at once: the handlers are the only writers and run one at a time, so
  the deferred commit of a drop and the debounced commit of a resize see the state the
  gesture saw. The timers that only hide the save notification again are left out.
\<close>

record CalendarView =
  currentDate :: Date
  history :: HistoryState
  isModalOpen :: bool
  selectedDate :: Date
  selectedEvent :: "CalendarEvent option"
  modalMode :: EventMode
  dragError :: "string option"
  resizingEvent :: "(string \<times> Date \<times> Date) option"
  showSaveNotification :: bool
  alerts :: "string list"

text \<open>
  \<open>saveEvents\<close> is the persistence collaborator: the handlers take its outcome as the
  argument \<open>saved\<close> (\<open>False\<close>: the promise was rejected). The CSV export is left out.
\<close>

definition handleDeleteEvent :: "string \<Rightarrow> CalendarView \<Rightarrow> CalendarView" where
  "handleDeleteEvent eventId v =
     v\<lparr>history :=
        \<lparr>past = past (history v) @ [present (history v)],
         present = filter (\<lambda>event. id_ev event \<noteq> eventId) (present (history v)),
         future = []\<rparr>\<rparr>"

definition handleUpdateEvent :: "bool \<Rightarrow> CalendarEvent \<Rightarrow> CalendarView \<Rightarrow> CalendarView" where
  "handleUpdateEvent saved updatedEvent v =
     (let newPresent = map (\<lambda>event. if id_ev event = id_ev updatedEvent then updatedEvent
                                      else event) (present (history v))
      in if \<not> saved
         then v\<lparr>alerts := alerts v @ [''Failed to update event. Please try again.'']\<rparr>
         else v\<lparr>history :=
                  \<lparr>past = past (history v) @ [present (history v)],
                   present = newPresent,
                   future = []\<rparr>,
                showSaveNotification := True,
                modalMode := view,
                isModalOpen := False\<rparr>)"

text \<open>\<open>n.toString()\<close> of a natural number, for the identity \<open>Date.now().toString()\<close>.\<close>

fun decimal :: "nat \<Rightarrow> string" where
  "decimal n =
     (if n < 10 then [char_of (48 + n)]
      else decimal (n div 10) @ [char_of (48 + n mod 10)])"

declare decimal.simps [simp del]

definition handleModalSave ::
  "nat \<Rightarrow> bool \<Rightarrow> EventData \<Rightarrow> CalendarView \<Rightarrow> CalendarView" where
  "handleModalSave stamp saved eventData v =
     (if title eventData = []
      then v\<lparr>alerts := alerts v @ [''Please enter an event title'']\<rparr>
      else (let newEvent =
                  \<lparr>title = trim (title eventData),
                   description = Some (case description eventData of
                                         None \<Rightarrow> []
                                       | Some d \<Rightarrow> trim d),
                   startDate = selectedDate v,
                   endDate = selectedDate v,
                   startTime = (if startTime eventData = [] then ''09:00''
                                else startTime eventData),
                   endTime = (if endTime eventData = [] then ''10:00''
                              else endTime eventData),
                   type_ev = type_ev eventData,
                   isMultiDay = Some False,
                   id_ev = decimal stamp\<rparr>;
                newPresent = present (history v) @ [newEvent]
            in if \<not> saved
               then v\<lparr>alerts := alerts v @ [''Failed to save event. Please try again.'']\<rparr>
               else v\<lparr>history :=
                        \<lparr>past = past (history v) @ [present (history v)],
                         present = newPresent,
                         future = []\<rparr>,
                      showSaveNotification := True,
                      isModalOpen := False\<rparr>))"

subsection \<open>Drag and drop\<close>

text \<open>
  The drop result of the drag library: the dragged event's identity and, when the drop
  landed on a calendar cell, that cell's \<open>droppableId\<close> (rendered as \<open>day-N\<close>).
\<close>

record DropResult =
  draggableId :: string
  destination :: "string option"

text \<open>
  The first half of \<open>handleDragEnd\<close>: the dragged event and the candidate date range;
  \<open>None\<close> where the handler returns at once.
\<close>

definition dragCandidate ::
  "DropResult \<Rightarrow> CalendarView \<Rightarrow> (CalendarEvent \<times> Date \<times> Date) option" where
  "dragCandidate result v =
     (case destination result of
        None \<Rightarrow> None
      | Some droppableId \<Rightarrow>
          (case find (\<lambda>e. id_ev e = draggableId result) (present (history v)) of
             None \<Rightarrow> None
           | Some event \<Rightarrow>
               (let destDay = (case split_on (CHR ''-'') droppableId of
                                 _ # d # _ \<Rightarrow> parseInt d
                               | _ \<Rightarrow> None);
                    daysDiff = js_minus (getDate (endDate event)) (getDate (startDate event));
                    newStartDate = new_Date (getFullYear (currentDate v))
                                     (getMonth (currentDate v)) destDay;
                    newEndDate = setDate newStartDate (js_plus (getDate newStartDate) daysDiff)
                in Some (event, newStartDate, newEndDate))))"

definition handleDragEnd :: "int \<Rightarrow> DropResult \<Rightarrow> CalendarView \<Rightarrow> CalendarView" where
  "handleDragEnd now result v =
     (case dragCandidate result v of
        None \<Rightarrow> v
      | Some (event, newStartDate, newEndDate) \<Rightarrow>
          (case isValidDropDate now (present (history v)) event newStartDate newEndDate of
             Some r \<Rightarrow> v\<lparr>dragError := Some (message r)\<rparr>
           | None \<Rightarrow>
               (let updatedEvent = event\<lparr>startDate := newStartDate, endDate := newEndDate\<rparr>;
                    newEvents = map (\<lambda>e. if id_ev e = draggableId result then updatedEvent
                                           else e) (present (history v))
                in v\<lparr>dragError := None,
                      history :=
                        \<lparr>past = past (history v) @ [present (history v)],
                         present = newEvents,
                         future = []\<rparr>\<rparr>)))"

subsection \<open>Resize\<close>

datatype Position = start_edge | end_edge

text \<open>
  \<open>Math.round(delta / 50)\<close> for a whole number of pixels: the nearest integer, a half
  rounding up.
\<close>

definition dayDelta_of :: "int \<Rightarrow> int" where
  "dayDelta_of delta = (delta + 25) div 50"

text \<open>
  The first half of \<open>handleResize\<close>: the candidate event with the adjusted edge; \<open>None\<close>
  where the handler returns at once.
\<close>

definition resizeCandidate :: "CalendarEvent \<Rightarrow> Position \<Rightarrow> int \<Rightarrow> CalendarEvent option" where
  "resizeCandidate event position delta =
     (let dayDelta = dayDelta_of delta
      in if dayDelta = 0 then None
         else (let date = (if position = start_edge then startDate event else endDate event);
                   newDate = setDate date (js_plus (getDate date) (Some dayDelta))
               in if position = start_edge
                  then (if js_ge newDate (endDate event) then None
                        else Some (event\<lparr>startDate := newDate\<rparr>))
                  else (if js_le newDate (startDate event) then None
                        else Some (event\<lparr>endDate := newDate\<rparr>))))"

text \<open>The debounced callback of \<open>handleResize\<close>.\<close>

definition resizeCommit ::
  "int \<Rightarrow> CalendarEvent \<Rightarrow> CalendarEvent \<Rightarrow> CalendarView \<Rightarrow> CalendarView" where
  "resizeCommit now event newEvent v =
     (case isValidDropDate now (present (history v)) newEvent
             (startDate newEvent) (endDate newEvent) of
        Some r \<Rightarrow> v\<lparr>dragError := Some (message r), resizingEvent := None\<rparr>
      | None \<Rightarrow>
          v\<lparr>dragError := None,
            history :=
              \<lparr>past = past (history v) @ [present (history v)],
               present = map (\<lambda>e. if id_ev e = id_ev event then newEvent else e)
                           (present (history v)),
               future = []\<rparr>,
            resizingEvent := None\<rparr>)"

definition handleResize ::
  "int \<Rightarrow> CalendarEvent \<Rightarrow> int \<Rightarrow> Position \<Rightarrow> int \<Rightarrow> CalendarView \<Rightarrow> CalendarView" where
  "handleResize now event day position delta v =
     (case resizeCandidate event position delta of
        None \<Rightarrow> v
      | Some newEvent \<Rightarrow>
          resizeCommit now event newEvent
            (v\<lparr>resizingEvent :=
                 Some (id_ev event, startDate newEvent, endDate newEvent)\<rparr>))"

subsection \<open>The event form\<close>

text \<open>The form state \<open>eventData\<close> of \<open>EventModal\<close>.\<close>

record FormData =
  title_f :: string
  startTime_f :: string
  endTime_f :: string
  description_f :: string
  type_f :: EventType

definition js_eq :: "int option \<Rightarrow> int option \<Rightarrow> bool" where
  "js_eq a b = (case (a, b) of (Some x, Some y) \<Rightarrow> x = y | _ \<Rightarrow> False)"

definition isSameDate :: "Date \<Rightarrow> Date \<Rightarrow> bool" where
  "isSameDate date1 date2 =
     (js_eq (getFullYear date1) (getFullYear date2) \<and>
      js_eq (getMonth date1) (getMonth date2) \<and>
      js_eq (getDate date1) (getDate date2))"

text \<open>
  \<open>findOverlappingEvent\<close> reads \<open>existingEvent.date\<close>, which is no field of
  \<open>CalendarEvent\<close>: \<open>new Date(undefined)\<close> is the Invalid Date, here \<open>None\<close>.
\<close>

definition findOverlappingEvent ::
  "Date \<Rightarrow> string \<Rightarrow> string \<Rightarrow> CalendarEvent list \<Rightarrow> string option \<Rightarrow> CalendarEvent option" where
  "findOverlappingEvent newDate newStartTime newEndTime existingEvents excludeEventId =
     find (\<lambda>existingEvent.
             if (case excludeEventId of
                   None \<Rightarrow> False
                 | Some x \<Rightarrow> x \<noteq> [] \<and> id_ev existingEvent = x) then False
             else if \<not> isSameDate None newDate then False
             else doTimesOverlap newStartTime newEndTime
                    (startTime existingEvent) (endTime existingEvent))
          existingEvents"

text \<open>
  The entries of \<open>newErrors\<close>, in the order they are set: the key and what the message is
  built from.
\<close>

datatype FormError = TitleRequired | TimeRangeError string | Overlaps CalendarEvent

definition validateForm ::
  "Date \<Rightarrow> CalendarEvent option \<Rightarrow> CalendarEvent list \<Rightarrow> FormData \<Rightarrow> (string \<times> FormError) list" where
  "validateForm selDate selEvent eventsForDay eventData =
     (if trim (title_f eventData) = [] then [(''title'', TitleRequired)] else []) @
     (case validateTimeRange (startTime_f eventData) (endTime_f eventData) of
        Some m \<Rightarrow> [(''endTime'', TimeRangeError m)]
      | None \<Rightarrow> []) @
     (case findOverlappingEvent selDate (startTime_f eventData) (endTime_f eventData)
             eventsForDay (map_option id_ev selEvent) of
        Some ev \<Rightarrow> [(''time'', Overlaps ev)]
      | None \<Rightarrow> [])"

text \<open>
  \<open>handleSubmit\<close> of the modal, wired as in \<open>CalendarView\<close>: \<open>onSave\<close> is
  \<open>handleModalSave\<close>, \<open>onUpdate\<close> is \<open>handleUpdateEvent\<close>, \<open>onClose\<close> closes the modal. It
  returns the errors it displays and the component state.
\<close>

definition handleSubmit ::
  "nat \<Rightarrow> bool \<Rightarrow> CalendarEvent list \<Rightarrow> FormData \<Rightarrow> CalendarView \<Rightarrow>
     (string \<times> FormError) list \<times> CalendarView" where
  "handleSubmit stamp saved eventsForDay eventData v =
     (let errors = validateForm (selectedDate v) (selectedEvent v) eventsForDay eventData
      in if errors \<noteq> [] then (errors, v)
         else (let v' =
                 (case selectedEvent v of
                    Some sel \<Rightarrow>
                      if modalMode v = edit
                      then handleUpdateEvent saved
                             (sel\<lparr>title := title_f eventData,
                                  description := Some (description_f eventData),
                                  startTime := startTime_f eventData,
                                  endTime := endTime_f eventData,
                                  type_ev := type_f eventData,
                                  startDate := selectedDate v,
                                  endDate := selectedDate v\<rparr>) v
                      else handleModalSave stamp saved
                             \<lparr>title = title_f eventData,
                              description = Some (description_f eventData),
                              startDate = selectedDate v,
                              endDate = selectedDate v,
                              startTime = startTime_f eventData,
                              endTime = endTime_f eventData,
                              type_ev = type_f eventData,
                              isMultiDay = None\<rparr> v
                  | None \<Rightarrow>
                      handleModalSave stamp saved
                        \<lparr>title = title_f eventData,
                         description = Some (description_f eventData),
                         startDate = selectedDate v,
                         endDate = selectedDate v,
                         startTime = startTime_f eventData,
                         endTime = endTime_f eventData,
                         type_ev = type_f eventData,
                         isMultiDay = None\<rparr> v)
               in (errors, v'\<lparr>isModalOpen := False\<rparr>)))"

section \<open>Notions of the specification\<close>


text \<open>A well-formed 24-hour time string \<open>HH:MM\<close>, hours 0 to 23 and minutes 0 to 59.\<close>

fun wf_time :: "string \<Rightarrow> bool" where
  "wf_time [h1, h2, c, m1, m2] =
     (is_dec h1 \<and> is_dec h2 \<and> c = CHR '':'' \<and> is_dec m1 \<and> is_dec m2 \<and>
      10 * dec_val h1 + dec_val h2 \<le> 23 \<and> 10 * dec_val m1 + dec_val m2 \<le> 59)"
| "wf_time _ = False"


text \<open>The number of days from the start day to the end day of an event.\<close>

definition daySpan :: "CalendarEvent \<Rightarrow> int option" where
  "daySpan e = js_minus (map_option Day (endDate e)) (map_option Day (startDate e))"

section \<open>Concrete scenarios\<close>

text \<open>Midnight of a civil date, months counted from 0.\<close>

definition ymd :: "int \<Rightarrow> int \<Rightarrow> int \<Rightarrow> int" where
  "ymd y m d = MakeDate (MakeDay y m d) 0"

text \<open>
  March 2027: a meeting \<open>A\<close> on days 10 to 12 from 09:00 to 10:00, an event \<open>B\<close> on day 5
  from 09:30 to 10:30; the clock reads noon of 1 March. \<open>evC\<close> is not in the collection.
\<close>

definition now0 :: int where
  "now0 = ymd 2027 2 1 + 43200000"

definition evA :: CalendarEvent where
  "evA = \<lparr>title = ''A'', description = None,
          startDate = Some (ymd 2027 2 10), endDate = Some (ymd 2027 2 12),
          startTime = ''09:00'', endTime = ''10:00'',
          type_ev = meeting, isMultiDay = Some True, id_ev = ''1''\<rparr>"

definition evB :: CalendarEvent where
  "evB = \<lparr>title = ''B'', description = None,
          startDate = Some (ymd 2027 2 5), endDate = Some (ymd 2027 2 5),
          startTime = ''09:30'', endTime = ''10:30'',
          type_ev = work, isMultiDay = Some False, id_ev = ''2''\<rparr>"

definition evC :: CalendarEvent where
  "evC = \<lparr>title = ''C'', description = None,
          startDate = Some (ymd 2027 2 20), endDate = Some (ymd 2027 2 20),
          startTime = ''14:00'', endTime = ''15:00'',
          type_ev = personal, isMultiDay = Some False, id_ev = ''3''\<rparr>"

definition view0 :: CalendarView where
  "view0 = \<lparr>currentDate = Some (ymd 2027 2 1),
            history = \<lparr>past = [], present = [evA, evB], future = []\<rparr>,
            isModalOpen = False, selectedDate = Some (ymd 2027 2 1), selectedEvent = None,
            modalMode = create, dragError = None, resizingEvent = None,
            showSaveNotification = False, alerts = []\<rparr>"

text \<open>A form whose title is two blanks, and a draft whose title is empty.\<close>

definition form0 :: FormData where
  "form0 = \<lparr>title_f = ''  '', startTime_f = ''09:00'', endTime_f = ''10:00'',
            description_f = [], type_f = other\<rparr>"

definition draft0 :: EventData where
  "draft0 = \<lparr>title = [], description = Some [],
             startDate = Some (ymd 2027 2 1), endDate = Some (ymd 2027 2 1),
             startTime = ''09:00'', endTime = ''10:00'',
             type_ev = other, isMultiDay = None\<rparr>"

text \<open>
  January 2027: a single event \<open>S\<close> on day 30, alone in the collection; the clock reads
  noon of 5 January.
\<close>

definition nowS :: int where
  "nowS = ymd 2027 0 5 + 43200000"

definition evS :: CalendarEvent where
  "evS = \<lparr>title = ''S'', description = None,
          startDate = Some (ymd 2027 0 30), endDate = Some (ymd 2027 0 30),
          startTime = ''09:00'', endTime = ''10:00'',
          type_ev = work, isMultiDay = Some False, id_ev = ''7''\<rparr>"

definition viewS :: CalendarView where
  "viewS = \<lparr>currentDate = Some (ymd 2027 0 1),
            history = \<lparr>past = [], present = [evS], future = []\<rparr>,
            isModalOpen = False, selectedDate = Some (ymd 2027 0 30), selectedEvent = None,
            modalMode = create, dragError = None, resizingEvent = None,
            showSaveNotification = False, alerts = []\<rparr>"

section \<open>Properties of the date arithmetic\<close>

lemma div_bounds:
  fixes a k :: int
  assumes "0 < k"
  shows "k * (a div k) \<le> a" "a < k * (a div k) + k"
proof -
  have "a = k * (a div k) + a mod k"
    by simp
  moreover have "0 \<le> a mod k" "a mod k < k"
    using assms by simp_all
  ultimately show "k * (a div k) \<le> a" "a < k * (a div k) + k"
    by linarith+
qed

lemma DayFromYear_bounds:
  "146097 * (y - 1970) - 506 \<le> 400 * DayFromYear y"
  "400 * DayFromYear y \<le> 146097 * (y - 1970) + 589"
proof -
  define a where "a = (y - 1969) div 4"
  define b where "b = (y - 1901) div 100"
  define c where "c = (y - 1601) div 400"
  have a: "4 * a \<le> y - 1969" "y - 1969 < 4 * a + 4"
    using div_bounds [of 4 "y - 1969"] by (simp_all add: a_def)
  have b: "100 * b \<le> y - 1901" "y - 1901 < 100 * b + 100"
    using div_bounds [of 100 "y - 1901"] by (simp_all add: b_def)
  have c: "400 * c \<le> y - 1601" "y - 1601 < 400 * c + 400"
    using div_bounds [of 400 "y - 1601"] by (simp_all add: c_def)
  have D: "DayFromYear y = 365 * (y - 1970) + a - b + c"
    by (simp add: DayFromYear_def a_def b_def c_def)
  show "146097 * (y - 1970) - 506 \<le> 400 * DayFromYear y"
    unfolding D using a b c by (simp add: algebra_simps)
  show "400 * DayFromYear y \<le> 146097 * (y - 1970) + 589"
    unfolding D using a b c by (simp add: algebra_simps)
qed

lemma YearFromTime_bounds:
  "DayFromYear (YearFromTime t) \<le> Day t \<and> Day t < DayFromYear (YearFromTime t + 1)"
proof -
  define d where "d = Day t"
  define y where "y = 1970 + (d * 400) div 146097"
  define q where "q = (d * 400) div 146097"
  have est: "146097 * q \<le> 400 * d" "400 * d < 146097 * q + 146097"
    using div_bounds [of 146097 "d * 400"] by (simp_all add: q_def)
  have y: "y = 1970 + q"
    by (simp add: y_def q_def)
  have "146097 * (y + 2 - 1970) - 506 \<le> 400 * DayFromYear (y + 2)"
    by (rule DayFromYear_bounds)
  then have up: "d < DayFromYear (y + 2)"
    using est(2) unfolding y by simp
  have "400 * DayFromYear (y - 1) \<le> 146097 * (y - 1 - 1970) + 589"
    by (rule DayFromYear_bounds)
  then have down: "DayFromYear (y - 1) \<le> d"
    using est(1) unfolding y by simp
  have "YearFromTime t =
      (if DayFromYear (y + 1) \<le> d then y + 1 else if d < DayFromYear y then y - 1 else y)"
    by (simp add: YearFromTime_def d_def y_def Let_def)
  moreover have "d < DayFromYear (2 + y)"
    using up by (simp add: add.commute)
  ultimately show ?thesis
    using down unfolding d_def [symmetric]
    by (simp split: if_splits)
qed


lemma MonthFromTime_range: "0 \<le> MonthFromTime t \<and> MonthFromTime t \<le> 11"
proof -
  let ?ms = "month_starts (leap_days (YearFromTime t))"
  let ?f = "filter (\<lambda>s. s \<le> DayWithinYear t) ?ms"
  have "0 \<le> DayWithinYear t"
    using YearFromTime_bounds [of t] by (simp add: DayWithinYear_def)
  then have "0 \<in> set ?f"
    by (simp add: month_starts_def)
  then have "0 < length ?f"
    by (cases ?f) auto
  moreover have "length ?f \<le> length ?ms"
    by (rule length_filter_le)
  moreover have "length ?ms = 12"
    by (simp add: month_starts_def)
  ultimately show ?thesis
    unfolding MonthFromTime_def by linarith
qed

lemma DateFromTime_table:
  "DateFromTime t =
     DayWithinYear t - month_starts (leap_days (YearFromTime t)) ! nat (MonthFromTime t) + 1"
  using MonthFromTime_range [of t]
  by (simp add: DateFromTime_def MakeDay_def DayWithinYear_def Let_def)

section \<open>Properties of the history log\<close>

lemma commits_Nil: "commits h [] = h"
  by (simp add: commits_def)

lemma commits_snoc: "commits h (cs @ [c]) = pushToHistory c (commits h cs)"
  by (simp add: commits_def)

lemma snoc_butlast_last: "xs \<noteq> [] \<Longrightarrow> butlast (x # xs) @ [last xs] = x # xs"
  by (induction xs arbitrary: x) (simp_all split: if_splits)

lemma commits_shape:
  "cs \<noteq> [] \<Longrightarrow> commits h cs =
    \<lparr>past = past h @ butlast (present h # cs), present = last cs, future = []\<rparr>"
proof (induction cs rule: rev_induct)
  case Nil
  then show ?case by simp
next
  case (snoc c cs)
  show ?case
  proof (cases "cs = []")
    case True
    then show ?thesis
      by (simp add: commits_def pushToHistory_def)
  next
    case False
    have "butlast (present h # cs @ [c]) = butlast (present h # cs) @ [last cs]"
      using snoc_butlast_last [OF False, of "present h"] by (simp add: butlast_append)
    with False snoc.IH show ?thesis
      by (simp add: commits_snoc pushToHistory_def)
  qed
qed

lemma undo_funpow:
  "(undo ^^ length xs) \<lparr>past = P @ xs, present = p, future = F\<rparr> =
     \<lparr>past = P, present = hd (xs @ [p]), future = tl (xs @ [p]) @ F\<rparr>"
proof (induction xs arbitrary: p F rule: rev_induct)
  case Nil
  show ?case by simp
next
  case (snoc x xs)
  have step: "undo \<lparr>past = P @ xs @ [x], present = p, future = F\<rparr> =
      \<lparr>past = P @ xs, present = x, future = p # F\<rparr>"
    by (simp add: undo_def butlast_append)
  have "(undo ^^ length (xs @ [x])) \<lparr>past = P @ xs @ [x], present = p, future = F\<rparr> =
      (undo ^^ length xs) (undo \<lparr>past = P @ xs @ [x], present = p, future = F\<rparr>)"
    by (simp add: funpow_swap1)
  also have "\<dots> = \<lparr>past = P, present = hd (xs @ [x]), future = tl (xs @ [x]) @ p # F\<rparr>"
    unfolding step by (rule snoc.IH)
  finally show ?case
    by (cases xs) simp_all
qed

lemma redo_funpow:
  "(redo ^^ length ys) \<lparr>past = P, present = p, future = ys @ F\<rparr> =
     \<lparr>past = P @ butlast (p # ys), present = last (p # ys), future = F\<rparr>"
proof (induction ys arbitrary: P p)
  case Nil
  show ?case by simp
next
  case (Cons y ys)
  have step: "redo \<lparr>past = P, present = p, future = (y # ys) @ F\<rparr> =
      \<lparr>past = P @ [p], present = y, future = ys @ F\<rparr>"
    by (simp add: redo_def)
  have "(redo ^^ length (y # ys)) \<lparr>past = P, present = p, future = (y # ys) @ F\<rparr> =
      (redo ^^ length ys) (redo \<lparr>past = P, present = p, future = (y # ys) @ F\<rparr>)"
    by (simp add: funpow_swap1)
  also have "\<dots> = \<lparr>past = P @ [p] @ butlast (y # ys), present = last (y # ys), future = F\<rparr>"
    unfolding step using Cons.IH [of "P @ [p]" y] by simp
  finally show ?case by simp
qed

lemma undo_commits:
  assumes "cs \<noteq> []"
  shows "(undo ^^ length cs) (commits h cs) = \<lparr>past = past h, present = present h, future = cs\<rparr>"
proof -
  let ?xs = "butlast (present h # cs)"
  have len: "length ?xs = length cs"
    by simp
  have full: "?xs @ [last cs] = present h # cs"
    using assms by (rule snoc_butlast_last)
  have "(undo ^^ length ?xs) \<lparr>past = past h @ ?xs, present = last cs, future = []\<rparr> =
        \<lparr>past = past h, present = hd (?xs @ [last cs]), future = tl (?xs @ [last cs]) @ []\<rparr>"
    by (rule undo_funpow)
  then have "(undo ^^ length cs) \<lparr>past = past h @ ?xs, present = last cs, future = []\<rparr> =
        \<lparr>past = past h, present = present h, future = cs\<rparr>"
    unfolding full len by simp
  then show ?thesis
    by (simp only: commits_shape [OF assms])
qed

lemma redo_undo_commits:
  assumes "cs \<noteq> []"
  shows "(redo ^^ length cs) ((undo ^^ length cs) (commits h cs)) = commits h cs"
proof -
  have "(redo ^^ length cs) \<lparr>past = past h, present = present h, future = cs @ []\<rparr> =
        \<lparr>past = past h @ butlast (present h # cs), present = last (present h # cs), future = []\<rparr>"
    by (rule redo_funpow)
  then have "(redo ^^ length cs) \<lparr>past = past h, present = present h, future = cs\<rparr> =
        \<lparr>past = past h @ butlast (present h # cs), present = last cs, future = []\<rparr>"
    using assms by simp
  also have "\<dots> = commits h cs"
    by (simp only: commits_shape [OF assms])
  finally show ?thesis
    by (simp only: undo_commits [OF assms])
qed

text \<open>
  C1. History law: after any sequence of commits \<open>c1..cn\<close> on any history state, \<open>n\<close> undos
  bring \<open>present\<close> (and \<open>past\<close>) back to what they were before \<open>c1\<close>, and \<open>n\<close> redos after
  that restore the state reached after \<open>cn\<close>.
\<close>

theorem history_undo_redo_law:
  "present ((undo ^^ length cs) (commits h cs)) = present h \<and>
   past ((undo ^^ length cs) (commits h cs)) = past h \<and>
   present ((redo ^^ length cs) ((undo ^^ length cs) (commits h cs))) = present (commits h cs) \<and>
   (redo ^^ length cs) ((undo ^^ length cs) (commits h cs)) = commits h cs"
proof (cases "cs = []")
  case True
  then show ?thesis by (simp add: commits_Nil)
next
  case False
  have u: "(undo ^^ length cs) (commits h cs) =
      \<lparr>past = past h, present = present h, future = cs\<rparr>"
    using False by (rule undo_commits)
  have r: "(redo ^^ length cs) ((undo ^^ length cs) (commits h cs)) = commits h cs"
    using False by (rule redo_undo_commits)
  show ?thesis
    unfolding r unfolding u by simp
qed

lemma handlers_commit_by_push:
  "history (handleDeleteEvent eid v) =
     pushToHistory (present (history (handleDeleteEvent eid v))) (history v)"
  "history (handleUpdateEvent saved u v) = history v \<or>
   history (handleUpdateEvent saved u v) =
     pushToHistory (present (history (handleUpdateEvent saved u v))) (history v)"
  "history (handleModalSave stamp saved draft v) = history v \<or>
   history (handleModalSave stamp saved draft v) =
     pushToHistory (present (history (handleModalSave stamp saved draft v))) (history v)"
  "history (handleDragEnd now result v) = history v \<or>
   history (handleDragEnd now result v) =
     pushToHistory (present (history (handleDragEnd now result v))) (history v)"
  "history (handleResize now event day position delta v) = history v \<or>
   history (handleResize now event day position delta v) =
     pushToHistory (present (history (handleResize now event day position delta v)))
       (history v)"
  "history (snd (handleSubmit stamp saved eventsForDay eventData v)) = history v \<or>
   history (snd (handleSubmit stamp saved eventsForDay eventData v)) =
     pushToHistory (present (history (snd (handleSubmit stamp saved eventsForDay eventData v))))
       (history v)"
  by (simp_all add: handleDeleteEvent_def handleUpdateEvent_def handleModalSave_def
      handleDragEnd_def handleResize_def resizeCommit_def handleSubmit_def
      pushToHistory_def Let_def split: option.splits prod.splits)

text \<open>
  C2. Branch discard: every commit leaves \<open>future\<close> empty; so after any number of undos
  followed by one commit, a redo returns the state unchanged. Every handler that changes
  \<open>history\<close> does so by such a commit (\<open>handlers_commit_by_push\<close>).
\<close>

theorem commit_discards_future:
  "future (pushToHistory c h) = [] \<and>
   redo (pushToHistory c ((undo ^^ k) h)) = pushToHistory c ((undo ^^ k) h)"
  by (simp add: pushToHistory_def redo_def)

section \<open>Properties of the validator\<close>

lemma is_dec_facts:
  assumes "is_dec c"
  shows "\<not> is_ws c" "c \<noteq> CHR '':''" "c \<noteq> CHR ''-''" "c \<noteq> CHR ''+''"
    "c \<noteq> CHR ''x''" "c \<noteq> CHR ''X''" "0 \<le> dec_val c" "dec_val c \<le> 9"
    "CHR '':'' \<noteq> c"
  using assms by (auto simp: is_dec_def is_ws_def dec_val_def Let_def)

lemma parseInt_hhmm:
  assumes "is_dec h1" "is_dec h2" "is_dec m1" "is_dec m2"
  shows "parseInt (replace_colon [h1, h2, CHR '':'', m1, m2]) =
    Some (100 * (10 * dec_val h1 + dec_val h2) + (10 * dec_val m1 + dec_val m2))"
  using assms by (simp add: parseInt_def replace_colon_def is_dec_facts dec_value_def Let_def)

lemma timeToMinutes_hhmm:
  assumes "is_dec h1" "is_dec h2" "is_dec m1" "is_dec m2"
  shows "timeToMinutes [h1, h2, CHR '':'', m1, m2] =
    Some (60 * (10 * dec_val h1 + dec_val h2) + (10 * dec_val m1 + dec_val m2))"
  using assms by (simp add: timeToMinutes_def Number_str_def trim_def is_dec_facts dec_value_def Let_def js_plus_def js_times_def)

lemma wf_time_cases:
  assumes "wf_time s"
  obtains h1 h2 m1 m2 where "s = [h1, h2, CHR '':'', m1, m2]"
    "is_dec h1" "is_dec h2" "is_dec m1" "is_dec m2"
    "10 * dec_val m1 + dec_val m2 \<le> 59"
  using assms by (auto elim!: wf_time.elims)

lemma wf_time_encodings:
  assumes "wf_time s"
  obtains H M where "parseInt (replace_colon s) = Some (100 * H + M)"
    "timeToMinutes s = Some (60 * H + M)" "0 \<le> M" "M \<le> 59"
proof -
  from assms obtain h1 h2 m1 m2 where s: "s = [h1, h2, CHR '':'', m1, m2]"
    and d: "is_dec h1" "is_dec h2" "is_dec m1" "is_dec m2"
    and m: "10 * dec_val m1 + dec_val m2 \<le> 59"
    by (rule wf_time_cases)
  have "0 \<le> 10 * dec_val m1 + dec_val m2"
    using is_dec_facts(7) [OF d(3)] is_dec_facts(7) [OF d(4)] by simp
  with m show ?thesis
    using that [of "10 * dec_val h1 + dec_val h2" "10 * dec_val m1 + dec_val m2"]
    by (simp add: s parseInt_hhmm [OF d] timeToMinutes_hhmm [OF d])
qed

lemma hhmm_order:
  fixes H1 H2 M1 M2 :: int
  assumes "0 \<le> M1" "M1 \<le> 59" "0 \<le> M2" "M2 \<le> 59"
  shows "100 * H1 + M1 < 100 * H2 + M2 \<longleftrightarrow> 60 * H1 + M1 < 60 * H2 + M2"
proof -
  consider "H1 < H2" | "H1 = H2" | "H2 < H1"
    by linarith
  then show ?thesis
  proof cases
    case 1
    then have "H1 + 1 \<le> H2" by simp
    then have "100 * H1 + 100 \<le> 100 * H2" "60 * H1 + 60 \<le> 60 * H2" by simp_all
    with assms show ?thesis by linarith
  next
    case 2
    then show ?thesis by simp
  next
    case 3
    then have "H2 + 1 \<le> H1" by simp
    then have "100 * H2 + 100 \<le> 100 * H1" "60 * H2 + 60 \<le> 60 * H1" by simp_all
    with assms show ?thesis by linarith
  qed
qed






lemma scanDays_range: "scanDays events event c e \<in> {None, Some TimeConflict}"
  by (induction events event c e rule: scanDays.induct)
    (subst scanDays.simps, simp add: Let_def)

lemma Day_bounds: "Day s * msPerDay \<le> s" "s < Day s * msPerDay + msPerDay"
proof -
  have "s = Day s * msPerDay + s mod msPerDay"
    by (simp add: Day_def)
  moreover have "0 \<le> s mod msPerDay" "s mod msPerDay < msPerDay"
    by (simp_all add: msPerDay_def)
  ultimately show "Day s * msPerDay \<le> s" "s < Day s * msPerDay + msPerDay"
    by linarith+
qed

lemma before_midnight_iff: "s < Day n * msPerDay \<longleftrightarrow> Day s < Day n"
proof
  assume "s < Day n * msPerDay"
  with Day_bounds(1) [of s] have "Day s * msPerDay < Day n * msPerDay"
    by linarith
  then show "Day s < Day n"
    by (simp add: msPerDay_def)
next
  assume "Day s < Day n"
  then have "(Day s + 1) * msPerDay \<le> Day n * msPerDay"
    by (simp add: msPerDay_def)
  with Day_bounds(2) [of s] show "s < Day n * msPerDay"
    by (simp add: algebra_simps)
qed

text \<open>
  C3. The validator rejects with \<open>PastDate\<close> exactly when the calendar day of the proposed
  start is strictly before the current calendar day; only the day numbers matter, the
  times of day of the start and of the clock do not.
\<close>

theorem past_date_rejection:
  "isValidDropDate now events event newStartDate newEndDate = Some PastDate \<longleftrightarrow>
     (\<exists>s. newStartDate = Some s \<and> Day s < Day now)"
proof -
  have past: "js_lt newStartDate (setHours0 (Some now)) \<longleftrightarrow>
      (\<exists>s. newStartDate = Some s \<and> Day s < Day now)"
    by (cases newStartDate)
      (simp_all add: js_lt_def setHours0_def MakeDate_def before_midnight_iff)
  have "scanDays events event newStartDate newEndDate \<noteq> Some PastDate"
    using scanDays_range [of events event newStartDate newEndDate] by auto
  then show ?thesis
    using past by (simp add: isValidDropDate_def)
qed







text \<open>
  C10. On well-formed \<open>HH:MM\<close> strings the validator's overlap test on \<open>HHMM\<close> integers
  gives the same verdict as \<open>doTimesOverlap\<close> on minutes.
\<close>

theorem hhmm_overlap_agrees_with_minutes:
  assumes "wf_time (startTime a)" "wf_time (endTime a)"
    "wf_time (startTime b)" "wf_time (endTime b)"
  shows "conflictsWith a b = doTimesOverlap (startTime a) (endTime a) (startTime b) (endTime b)"
proof -
  from assms(1) obtain H1 M1 where 1: "parseInt (replace_colon (startTime a)) = Some (100 * H1 + M1)"
    "timeToMinutes (startTime a) = Some (60 * H1 + M1)" "0 \<le> M1" "M1 \<le> 59"
    by (rule wf_time_encodings)
  from assms(2) obtain H2 M2 where 2: "parseInt (replace_colon (endTime a)) = Some (100 * H2 + M2)"
    "timeToMinutes (endTime a) = Some (60 * H2 + M2)" "0 \<le> M2" "M2 \<le> 59"
    by (rule wf_time_encodings)
  from assms(3) obtain H3 M3 where 3: "parseInt (replace_colon (startTime b)) = Some (100 * H3 + M3)"
    "timeToMinutes (startTime b) = Some (60 * H3 + M3)" "0 \<le> M3" "M3 \<le> 59"
    by (rule wf_time_encodings)
  from assms(4) obtain H4 M4 where 4: "parseInt (replace_colon (endTime b)) = Some (100 * H4 + M4)"
    "timeToMinutes (endTime b) = Some (60 * H4 + M4)" "0 \<le> M4" "M4 \<le> 59"
    by (rule wf_time_encodings)
  have a: "100 * H1 + M1 < 100 * H4 + M4 \<longleftrightarrow> 60 * H1 + M1 < 60 * H4 + M4"
    using 1 4 by (intro hhmm_order)
  have b: "100 * H3 + M3 < 100 * H2 + M2 \<longleftrightarrow> 60 * H3 + M3 < 60 * H2 + M2"
    using 2 3 by (intro hhmm_order)
  show ?thesis
    by (simp add: conflictsWith_def doTimesOverlap_def 1 2 3 4 js_lt_def js_gt_def a b)
qed

theorem hhmm_overlap_agrees_with_minutes_witness:
  "conflictsWith evB evA \<and>
   doTimesOverlap (startTime evB) (endTime evB) (startTime evA) (endTime evA)"
proof -
  have wf: "wf_time (startTime evB)" "wf_time (endTime evB)"
    "wf_time (startTime evA)" "wf_time (endTime evA)"
    by code_simp+
  have "conflictsWith evB evA" by code_simp
  with hhmm_overlap_agrees_with_minutes [OF wf] show ?thesis by simp
qed

section \<open>Properties of the handlers\<close>

lemma filter_absent: "eid \<notin> id_ev ` set xs \<Longrightarrow> filter (\<lambda>e. id_ev e \<noteq> eid) xs = xs"
  by (induction xs) auto

lemma map_absent:
  "id_ev u \<notin> id_ev ` set xs \<Longrightarrow> map (\<lambda>e. if id_ev e = id_ev u then u else e) xs = xs"
  by (induction xs) auto

lemma move_keeps_span_within_month:
  assumes "dragCandidate result v = Some (event, Some s, newEndDate)"
    and "startDate event = Some a" and "endDate event = Some b"
    and "YearFromTime a = YearFromTime b" and "MonthFromTime a = MonthFromTime b"
  shows "newEndDate = Some (s + (Day b - Day a) * msPerDay)"
proof -
  have "js_minus (getDate (endDate event)) (getDate (startDate event)) = Some (Day b - Day a)"
    using assms(2-5) by (simp add: js_minus_def getDate_def DateFromTime_def)
  moreover have "setDate (Some s) (js_plus (getDate (Some s)) (Some (Day b - Day a))) =
      Some (s + (Day b - Day a) * msPerDay)"
    by (rule setDate_next_day)
  ultimately show ?thesis
    using assms(1)
    by (auto simp: dragCandidate_def Let_def split: option.splits)
qed

text \<open>
  C5. A move is meant to keep the number of days an event spans. The handler takes
  \<open>daysDiff\<close> from the days of the month of the two dates, which is the span only while
  both lie in one month (\<open>move_keeps_span_within_month\<close>). Here the event \<open>S\<close> of 30 January
  is resized by three days, to end on 2 February, and then dropped on day 20 of January:
  \<open>daysDiff\<close> is \<open>2 - 30\<close>, the validator accepts, and the committed event starts on
  20 January 2027 and ends on 23 December 2026. Its span went from 3 days to \<open>- 28\<close>.
\<close>

theorem move_across_month_boundary:
  "present (history (handleResize nowS evS 30 end_edge 150 viewS)) =
     [evS\<lparr>endDate := Some (ymd 2027 1 2)\<rparr>] \<and>
   daySpan (evS\<lparr>endDate := Some (ymd 2027 1 2)\<rparr>) = Some 3 \<and>
   present (history
     (handleDragEnd nowS \<lparr>draggableId = ''7'', destination = Some ''day-20''\<rparr>
       (handleResize nowS evS 30 end_edge 150 viewS))) =
     [evS\<lparr>startDate := Some (ymd 2027 0 20), endDate := Some (ymd 2026 11 23)\<rparr>] \<and>
   daySpan (evS\<lparr>startDate := Some (ymd 2027 0 20), endDate := Some (ymd 2026 11 23)\<rparr>) =
     Some (- 28)"
  by code_simp

text \<open>
  C6. Deleting is idempotent on the collection, and deleting an identity that no event
  of the collection has leaves the collection as it is; the handler raises no alert.
\<close>

theorem delete_idempotent:
  "present (history (handleDeleteEvent eid (handleDeleteEvent eid v))) =
     present (history (handleDeleteEvent eid v)) \<and>
   (eid \<notin> id_ev ` set (present (history v)) \<longrightarrow>
      present (history (handleDeleteEvent eid v)) = present (history v)) \<and>
   alerts (handleDeleteEvent eid v) = alerts v"
  by (simp add: handleDeleteEvent_def filter_absent)

theorem delete_idempotent_witness:
  "''3'' \<notin> id_ev ` set (present (history view0)) \<and>
   present (history (handleDeleteEvent ''3'' view0)) = [evA, evB] \<and>
   present (history (handleDeleteEvent ''1'' (handleDeleteEvent ''1'' view0))) = [evB]"
proof -
  have absent: "''3'' \<notin> id_ev ` set (present (history view0))"
    by (simp add: view0_def evA_def evB_def)
  have one: "present (history (handleDeleteEvent ''1'' view0)) = [evB]"
    by (simp add: handleDeleteEvent_def view0_def evA_def evB_def)
  have "present (history view0) = [evA, evB]"
    by (simp add: view0_def)
  with absent one delete_idempotent [of "''3''" view0] delete_idempotent [of "''1''" view0]
  show ?thesis by simp
qed

text \<open>
  C7, as the claim states it, fails: updating with an event whose identity is not in the
  collection signals nothing. With \<open>evC\<close> absent from the collection of \<open>view0\<close>, the
  handler raises no alert, shows the save notification and pushes a history entry.
\<close>

theorem update_absent_identity_not_signalled:
  "id_ev evC \<notin> id_ev ` set (present (history view0)) \<and>
   alerts (handleUpdateEvent True evC view0) = [] \<and>
   showSaveNotification (handleUpdateEvent True evC view0) \<and>
   history (handleUpdateEvent True evC view0) =
     \<lparr>past = [[evA, evB]], present = [evA, evB], future = []\<rparr>"
  by (simp add: handleUpdateEvent_def view0_def evA_def evB_def evC_def)

text \<open>
  C7, amended. An update replaces every element that has the identity of the given
  event. When no element has it, the collection is left unchanged and nothing is
  signalled: with a successful save the handler commits and reports success exactly as
  for any update (the old collection is pushed onto \<open>past\<close>, \<open>future\<close> is cleared, the save
  notification is shown, the modal closes, no alert is raised). The only failure it
  surfaces is a failed save, which changes nothing but the alert.
\<close>

theorem update_replaces_matching:
  "handleUpdateEvent True u v =
     v\<lparr>history :=
         pushToHistory
           (map (\<lambda>e. if id_ev e = id_ev u then u else e) (present (history v))) (history v),
       showSaveNotification := True, modalMode := view, isModalOpen := False\<rparr> \<and>
   present (history (handleUpdateEvent True u v)) =
     map (\<lambda>e. if id_ev e = id_ev u then u else e) (present (history v)) \<and>
   alerts (handleUpdateEvent True u v) = alerts v \<and>
   (id_ev u \<notin> id_ev ` set (present (history v)) \<longrightarrow>
      present (history (handleUpdateEvent True u v)) = present (history v) \<and>
      handleUpdateEvent True u v =
        v\<lparr>history := pushToHistory (present (history v)) (history v),
          showSaveNotification := True, modalMode := view, isModalOpen := False\<rparr>) \<and>
   handleUpdateEvent False u v =
     v\<lparr>alerts := alerts v @ [''Failed to update event. Please try again.'']\<rparr>"
  by (simp add: handleUpdateEvent_def pushToHistory_def map_absent)

theorem update_replaces_matching_witness:
  "id_ev evC \<notin> id_ev ` set (present (history view0)) \<and>
   handleUpdateEvent True evC view0 =
     view0\<lparr>history := pushToHistory (present (history view0)) (history view0),
       showSaveNotification := True, modalMode := view, isModalOpen := False\<rparr> \<and>
   alerts (handleUpdateEvent True evC view0) = alerts view0"
proof -
  have absent: "id_ev evC \<notin> id_ev ` set (present (history view0))"
    by (simp add: view0_def evA_def evB_def evC_def)
  with update_replaces_matching [of evC view0] show ?thesis by blast
qed

text \<open>
  C8. Submitting the form with a title that is empty after trimming is rejected with the
  title error and leaves the whole component state, so \<open>history\<close> and its \<open>present\<close>,
  unchanged; and \<open>handleModalSave\<close> itself, given an empty title, only raises an alert.
\<close>

theorem empty_title_rejected:
  "(trim (title_f eventData) = [] \<longrightarrow>
      snd (handleSubmit stamp saved eventsForDay eventData v) = v \<and>
      (''title'', TitleRequired) \<in> set (fst (handleSubmit stamp saved eventsForDay eventData v))) \<and>
   (title draft = [] \<longrightarrow>
      handleModalSave stamp saved draft v =
        v\<lparr>alerts := alerts v @ [''Please enter an event title'']\<rparr>)"
  by (simp add: handleSubmit_def validateForm_def handleModalSave_def Let_def)

theorem empty_title_rejected_witness:
  "trim (title_f form0) = [] \<and> title draft0 = [] \<and>
   handleSubmit 1 True [] form0 view0 = ([(''title'', TitleRequired)], view0) \<and>
   history (handleModalSave 1 True draft0 view0) = history view0"
proof -
  have t: "trim (title_f form0) = []"
    by code_simp
  have d: "title draft0 = []"
    by (simp add: draft0_def)
  have errs: "fst (handleSubmit 1 True [] form0 view0) = [(''title'', TitleRequired)]"
    by code_simp
  from t d empty_title_rejected [of form0 1 True "[]" view0 draft0] errs show ?thesis
    by (simp add: prod_eq_iff)
qed

text \<open>
  The guard of \<open>handleModalSave\<close> tests the title before it is trimmed: called directly
  with a blank title it would store an event whose title is empty. The form's validation
  is what keeps blank titles out.
\<close>

lemma modal_save_blank_title:
  "map title (present (history (handleModalSave 1 True (draft0\<lparr>title := ''  ''\<rparr>) view0))) =
     [''A'', ''B'', []]"
  by code_simp

text \<open>
  C9, as the claim states it, fails for a resize gesture. The resize handle calls
  \<open>handleResize\<close> on every pointer move with the offset from where the gesture began;
  every call holds the event as it was when the gesture began and sets a timer of its
  own, so each candidate is validated and committed by itself. With offsets of 200 and
  then 250 pixels on the end of \<open>B\<close>, the first candidate (ending 9 March) is accepted and
  committed and the second (ending 10 March, where \<open>A\<close> is) is rejected, against the
  collection of the gesture's start and against the current one alike: \<open>B\<close> is left
  ending on 9 March instead of 5 March, and \<open>past\<close> holds an entry.
\<close>

theorem resize_gesture_keeps_intermediate_commit:
  "resizeCandidate evB end_edge 200 = Some (evB\<lparr>endDate := Some (ymd 2027 2 9)\<rparr>) \<and>
   resizeCandidate evB end_edge 250 = Some (evB\<lparr>endDate := Some (ymd 2027 2 10)\<rparr>) \<and>
   isValidDropDate now0 (present (history view0)) (evB\<lparr>endDate := Some (ymd 2027 2 10)\<rparr>)
     (Some (ymd 2027 2 5)) (Some (ymd 2027 2 10)) = Some TimeConflict \<and>
   isValidDropDate now0 (present (history (handleResize now0 evB 5 end_edge 200 view0)))
     (evB\<lparr>endDate := Some (ymd 2027 2 10)\<rparr>)
     (Some (ymd 2027 2 5)) (Some (ymd 2027 2 10)) = Some TimeConflict \<and>
   handleResize now0 evB 5 end_edge 250 (handleResize now0 evB 5 end_edge 200 view0) =
     view0\<lparr>history :=
             \<lparr>past = [[evA, evB]],
              present = [evA, evB\<lparr>endDate := Some (ymd 2027 2 9)\<rparr>],
              future = []\<rparr>,
           dragError := Some (message TimeConflict)\<rparr> \<and>
   present (history
      (handleResize now0 evB 5 end_edge 250 (handleResize now0 evB 5 end_edge 200 view0))) \<noteq>
     present (history view0)"
  by code_simp

text \<open>
  C9, amended. When the validator rejects the candidate range of a move, or of one
  resize update (one call of \<open>handleResize\<close> with its timer callback), the handler only
  records the reason in \<open>dragError\<close> (and a resize clears the in-progress
  \<open>resizingEvent\<close>): \<open>history\<close> is untouched, so nothing is pushed onto \<open>past\<close>, \<open>future\<close>
  is not cleared and the event keeps in \<open>present\<close> the date range it had before the call.
\<close>

theorem rejected_candidate_leaves_history:
  "(dragCandidate result v = Some (event, newStartDate, newEndDate) \<and>
    isValidDropDate now (present (history v)) event newStartDate newEndDate = Some r \<longrightarrow>
      handleDragEnd now result v = v\<lparr>dragError := Some (message r)\<rparr>) \<and>
   (resizeCandidate event position delta = Some newEvent \<and>
    isValidDropDate now (present (history v)) newEvent (startDate newEvent) (endDate newEvent)
      = Some r \<longrightarrow>
      handleResize now event day position delta v =
        v\<lparr>dragError := Some (message r), resizingEvent := None\<rparr>)"
  by (simp add: handleDragEnd_def handleResize_def resizeCommit_def)

theorem rejected_candidate_leaves_history_witness:
  "dragCandidate \<lparr>draggableId = ''2'', destination = Some ''day-10''\<rparr> view0 =
     Some (evB, Some (ymd 2027 2 10), Some (ymd 2027 2 10)) \<and>
   isValidDropDate now0 (present (history view0)) evB
     (Some (ymd 2027 2 10)) (Some (ymd 2027 2 10)) = Some TimeConflict \<and>
   handleDragEnd now0 \<lparr>draggableId = ''2'', destination = Some ''day-10''\<rparr> view0 =
     view0\<lparr>dragError := Some (message TimeConflict)\<rparr> \<and>
   resizeCandidate evB end_edge 250 = Some (evB\<lparr>endDate := Some (ymd 2027 2 10)\<rparr>) \<and>
   isValidDropDate now0 (present (history view0)) (evB\<lparr>endDate := Some (ymd 2027 2 10)\<rparr>)
     (startDate (evB\<lparr>endDate := Some (ymd 2027 2 10)\<rparr>))
     (endDate (evB\<lparr>endDate := Some (ymd 2027 2 10)\<rparr>)) = Some TimeConflict \<and>
   handleResize now0 evB 5 end_edge 250 view0 =
     view0\<lparr>dragError := Some (message TimeConflict), resizingEvent := None\<rparr>"
proof -
  let ?res = "\<lparr>draggableId = ''2'', destination = Some ''day-10''\<rparr>"
  let ?new = "evB\<lparr>endDate := Some (ymd 2027 2 10)\<rparr>"
  have d1: "dragCandidate ?res view0 = Some (evB, Some (ymd 2027 2 10), Some (ymd 2027 2 10))"
    by code_simp
  have d2: "isValidDropDate now0 (present (history view0)) evB
      (Some (ymd 2027 2 10)) (Some (ymd 2027 2 10)) = Some TimeConflict"
    by code_simp
  have r1: "resizeCandidate evB end_edge 250 = Some ?new"
    by code_simp
  have r2: "isValidDropDate now0 (present (history view0)) ?new
      (startDate ?new) (endDate ?new) = Some TimeConflict"
    by code_simp
  from d1 d2 r1 r2
    rejected_candidate_leaves_history [where result = ?res and v = view0 and event = evB
      and newStartDate = "Some (ymd 2027 2 10)" and newEndDate = "Some (ymd 2027 2 10)"
      and now = now0 and r = TimeConflict and position = end_edge and delta = 250
      and newEvent = ?new and day = 5]
  show ?thesis by blast
qed

end
